theory Spec2Isabelle
  imports Complex_Main "HOL-Library.Word"
begin

section \<open>Marquee rail (marquee-rail.tsx)\<close>

text \<open>
  \<^verbatim>\<open>MarqueeRail<T>({ items, duration, gapVar, renderItem })\<close> builds
  \<^verbatim>\<open>marqueeItems = [...items, ...items]\<close>, a style object with three custom
  properties, and one \<^verbatim>\<open>div\<close> whose children are
  \<^verbatim>\<open>marqueeItems.map((item, index) => renderItem(item, index))\<close>.
  The element type \<open>'a\<close> and the type \<open>'r\<close> of what \<^verbatim>\<open>renderItem\<close> returns are
  left polymorphic, as the generic parameter \<^verbatim>\<open>T\<close> and \<^verbatim>\<open>ReactNode\<close> are.
\<close>

definition marqueeItems :: "'a list \<Rightarrow> 'a list" where
  "marqueeItems items = items @ items"

text \<open>The style object, with the template literals written out as concatenations.\<close>

definition railStyle :: "string \<Rightarrow> string \<Rightarrow> (string \<times> string) list" where
  "railStyle gapVar duration =
     [(''--marquee-gap'', ''var('' @ gapVar @ '')''),
      (''--marquee-distance'', ''calc(-50% - var('' @ gapVar @ ''))''),
      (''--marquee-duration'', duration)]"

record 'r rail =
  className :: string
  style :: "(string \<times> string) list"
  children :: "'r list"

text \<open>\<^verbatim>\<open>Array.prototype.map\<close> hands the callback each item with its index.\<close>

definition map_indexed :: "('a \<Rightarrow> nat \<Rightarrow> 'r) \<Rightarrow> 'a list \<Rightarrow> 'r list" where
  "map_indexed f xs = map (\<lambda>(item, index). f item index) (zip xs [0..<length xs])"

definition MarqueeRail :: "'a list \<Rightarrow> string \<Rightarrow> string \<Rightarrow> ('a \<Rightarrow> nat \<Rightarrow> 'r) \<Rightarrow> 'r rail" where
  "MarqueeRail items duration gapVar renderItem =
     \<lparr> className = ''flex w-max gap-[var(--marquee-gap)] animate-marquee motion-reduce:animate-none motion-reduce:[animation:none!important]'',
       style = railStyle gapVar duration,
       children = map_indexed renderItem (marqueeItems items) \<rparr>"

subsection \<open>What the distance expression denotes\<close>









section \<open>Strings\<close>

text \<open>
  A JavaScript string is a sequence of 16-bit code units. \<open>js\<close> embeds an ASCII
  literal of the source.
\<close>

type_synonym jsstring = "16 word list"

definition js :: "string \<Rightarrow> jsstring" where
  "js s = map (\<lambda>c. of_nat (of_char c)) s"

text \<open>
  \<^verbatim>\<open>String.prototype.trim\<close> removes leading and trailing white space and line
  terminators: TAB, VT, FF, SP, NBSP, ZWNBSP, the space separators, LF, CR, LS, PS.
\<close>

definition isWhiteSpace :: "16 word \<Rightarrow> bool" where
  "isWhiteSpace c = (c \<in> set [0x9, 0xA, 0xB, 0xC, 0xD, 0x20, 0xA0, 0x1680,
      0x2000, 0x2001, 0x2002, 0x2003, 0x2004, 0x2005, 0x2006, 0x2007, 0x2008, 0x2009, 0x200A,
      0x2028, 0x2029, 0x202F, 0x205F, 0x3000, 0xFEFF])"

definition trim :: "jsstring \<Rightarrow> jsstring" where
  "trim s = rev (dropWhile isWhiteSpace (rev (dropWhile isWhiteSpace s)))"

fun join :: "jsstring \<Rightarrow> jsstring list \<Rightarrow> jsstring" where
  "join sep [] = []"
| "join sep [x] = x"
| "join sep (x # y # ys) = x @ sep @ join sep (y # ys)"

section \<open>Rendered elements\<close>

text \<open>
  What a component returns: a tree of elements with their props. Event handler props
  carry a tag naming the function of the source they are bound to, \<^verbatim>\<open>ref\<close> props
  the ref object they fill. Attributes carry the name they have in the document, which
  is what a selector tests (\<^verbatim>\<open>class\<close> for \<^verbatim>\<open>className\<close>, \<^verbatim>\<open>for\<close> for
  \<^verbatim>\<open>htmlFor\<close>). A prop whose value is \<^verbatim>\<open>false\<close> or \<^verbatim>\<open>undefined\<close>
  sets no attribute and is left out of the list; a bare or \<^verbatim>\<open>true\<close> boolean
  prop is present.
\<close>

datatype handler = CallOnClose | StopPropagation

datatype ref = InputRef | DialogRef

datatype jsx_prop =
    Attr string jsstring
  | OnClick handler
  | OnSubmit
  | OnChange
  | Ref ref

datatype node = Element string "jsx_prop list" "node list" | Text jsstring

type_synonym path = "nat list"

fun is_element :: "node \<Rightarrow> bool" where
  "is_element (Element tag ps cs) = True"
| "is_element (Text t) = False"

fun props :: "node \<Rightarrow> jsx_prop list" where
  "props (Element tag ps cs) = ps"
| "props (Text t) = []"

text \<open>A later prop of the same name overrides an earlier one, as a spread does.\<close>

fun attr_of :: "string \<Rightarrow> jsx_prop list \<Rightarrow> jsstring option" where
  "attr_of a [] = None"
| "attr_of a (Attr b v # ps) =
     (case attr_of a ps of Some v' \<Rightarrow> Some v' | None \<Rightarrow> if a = b then Some v else None)"
| "attr_of a (_ # ps) = attr_of a ps"

definition bool_attr :: "string \<Rightarrow> bool \<Rightarrow> jsx_prop list" where
  "bool_attr a b = (if b then [Attr a []] else [])"

fun node_at :: "node \<Rightarrow> path \<Rightarrow> node option" where
  "node_at n [] = Some n"
| "node_at (Text t) (i # p) = None"
| "node_at (Element tag ps cs) (i # p) = (if i < length cs then node_at (cs ! i) p else None)"

text \<open>
  The descendants of a node in document order, each with its path from the root of the
  rendered tree; \<open>p\<close> is the path of the node itself.
\<close>

fun descendants :: "path \<Rightarrow> node \<Rightarrow> (path \<times> node) list"
  and descendants_from :: "path \<Rightarrow> nat \<Rightarrow> node list \<Rightarrow> (path \<times> node) list" where
  "descendants p (Text t) = []"
| "descendants p (Element tag ps cs) = descendants_from p 0 cs"
| "descendants_from p i [] = []"
| "descendants_from p i (c # cs) =
     (p @ [i], c) # descendants (p @ [i]) c @ descendants_from p (Suc i) cs"

subsection \<open>Selectors\<close>

text \<open>
  \<^verbatim>\<open>focusableSelectors\<close> is a comma-separated list of compound selectors, each a
  conjunction of a type selector, attribute presence tests and negations.
\<close>

datatype simple_selector =
    Tag string
  | HasAttr string
  | NotHasAttr string
  | NotAttrEq string jsstring

type_synonym selector_list = "simple_selector list list"

definition focusableSelectors :: selector_list where
  "focusableSelectors =
     [[Tag ''a'', HasAttr ''href'', NotAttrEq ''tabindex'' (js ''-1'')],
      [Tag ''button'', NotHasAttr ''disabled'', NotAttrEq ''tabindex'' (js ''-1'')],
      [Tag ''input'', NotHasAttr ''disabled'', NotAttrEq ''tabindex'' (js ''-1'')],
      [Tag ''textarea'', NotHasAttr ''disabled'', NotAttrEq ''tabindex'' (js ''-1'')],
      [Tag ''select'', NotHasAttr ''disabled'', NotAttrEq ''tabindex'' (js ''-1'')],
      [HasAttr ''tabindex'', NotAttrEq ''tabindex'' (js ''-1'')]]"

fun matches_simple :: "simple_selector \<Rightarrow> node \<Rightarrow> bool" where
  "matches_simple s (Text t) = False"
| "matches_simple (Tag t) (Element tag ps cs) = (tag = t)"
| "matches_simple (HasAttr a) (Element tag ps cs) = (attr_of a ps \<noteq> None)"
| "matches_simple (NotHasAttr a) (Element tag ps cs) = (attr_of a ps = None)"
| "matches_simple (NotAttrEq a v) (Element tag ps cs) = (attr_of a ps \<noteq> Some v)"

definition matches :: "selector_list \<Rightarrow> node \<Rightarrow> bool" where
  "matches sels n = (is_element n \<and> list_ex (\<lambda>c. list_all (\<lambda>s. matches_simple s n) c) sels)"

text \<open>
  \<^verbatim>\<open>element.querySelectorAll(selectors)\<close>: the descendants of the element that
  match, in document order. An element is named by its path.
\<close>

definition querySelectorAll :: "selector_list \<Rightarrow> path \<times> node \<Rightarrow> path list" where
  "querySelectorAll sels e =
     map fst (filter (\<lambda>(q, m). matches sels m) (descendants (fst e) (snd e)))"

text \<open>The element a ref object points to once the tree is mounted.\<close>

definition ref_current :: "ref \<Rightarrow> node option \<Rightarrow> (path \<times> node) option" where
  "ref_current r tree =
     (case tree of None \<Rightarrow> None
      | Some t \<Rightarrow> find (\<lambda>(q, m). Ref r \<in> set (props m)) (([], t) # descendants [] t))"

section \<open>Primary call-to-action button (primary-cta-button.tsx)\<close>

definition baseClassNames :: jsstring where
  "baseClassNames = js ''inline-flex items-center justify-center gap-[var(--spacing-4)] rounded-[var(--radius-pill)] px-[var(--spacing-10)] py-[var(--spacing-7)] title-medium text-on-primary elevation-level2 transition ease-[var(--easing-emphasized)] focus-visible:outline focus-visible:outline-[var(--spacing-1)] focus-visible:outline-offset-[var(--spacing-2)] focus-visible:outline-primary''"

definition enabledClassNames :: jsstring where
  "enabledClassNames = js ''cursor-pointer bg-primary hover:bg-inverse-primary hover:text-inverse-on-surface''"

definition disabledClassNames :: jsstring where
  "disabledClassNames = js ''cursor-not-allowed bg-surface-variant text-on-surface opacity-70''"

text \<open>
  \<^verbatim>\<open>PrimaryCtaButton({ className, type = "button", disabled = false, ...rest })\<close>:
  the three named props are optional, \<open>rest\<close> is every other prop and is spread last,
  the children are among them. \<^verbatim>\<open>filter(Boolean)\<close> drops a missing or empty
  class name.
\<close>

definition PrimaryCtaButton ::
  "jsstring option \<Rightarrow> jsstring option \<Rightarrow> bool option \<Rightarrow> jsx_prop list \<Rightarrow> node list \<Rightarrow> node" where
  "PrimaryCtaButton className_opt type_opt disabled_opt rest kids =
     (let type = (case type_opt of None \<Rightarrow> js ''button'' | Some t \<Rightarrow> t);
          disabled = (case disabled_opt of None \<Rightarrow> False | Some d \<Rightarrow> d);
          stateClassNames = (if disabled then disabledClassNames else enabledClassNames);
          mergedClassName = join (js '' '')
            (filter (\<lambda>c. c \<noteq> [])
               ([baseClassNames, stateClassNames] @ (case className_opt of None \<Rightarrow> [] | Some c \<Rightarrow> [c])))
      in Element ''button''
           ([Attr ''type'' type] @ bool_attr ''disabled'' disabled
            @ (if disabled then [Attr ''aria-disabled'' (js ''true'')] else [])
            @ [Attr ''class'' mergedClassName] @ rest)
           kids)"

section \<open>Launch modal: what it renders (launch-modal.tsx)\<close>

datatype status = Idle | Success

definition benefits :: "jsstring list" where
  "benefits =
     [js ''Early access to the app the moment stores approve it'',
      js ''Launch-week bonus credits for your first swaps'',
      js ''Invites to community pilot events and beta groups'']"

text \<open>\<^verbatim>\<open>useMemo(() => email.trim().length === 0, [email])\<close>\<close>

definition isSubmitDisabled :: "jsstring \<Rightarrow> bool" where
  "isSubmitDisabled e = (length (trim e) = 0)"

text \<open>
  The pieces of the returned tree, top down in the order of the source. The
  \<^verbatim>\<open>key\<close> of a list item is React's own and sets nothing on the element.
\<close>

definition closeButton :: node where
  "closeButton =
     Element ''button''
       [Attr ''type'' (js ''button''),
        OnClick CallOnClose,
        Attr ''class'' (js ''inline-flex h-[var(--spacing-12)] w-[var(--spacing-12)] items-center justify-center rounded-[var(--radius-lg)] border border-outline/60 bg-surface-variant text-on-surface-variant cursor-pointer transition ease-[var(--easing-standard)] hover:text-on-surface focus-visible:outline focus-visible:outline-[var(--spacing-1)] focus-visible:outline-offset-[var(--spacing-2)] focus-visible:outline-primary''),
        Attr ''aria-label'' (js ''Close launch list modal'')]
       [Element ''span''
          [Attr ''aria-hidden'' (js ''true''), Attr ''class'' (js ''text-title-medium leading-none'')]
          [Text [0xD7]]]"

definition modalHeader :: node where
  "modalHeader =
     Element ''div'' [Attr ''class'' (js ''flex items-start justify-between gap-[var(--spacing-6)]'')]
       [Element ''div'' [Attr ''class'' (js ''space-y-[var(--spacing-4)]'')]
          [Element ''p'' [Attr ''class'' (js ''label-medium text-on-surface-variant'')]
             [Text (js ''Launch list'')],
           Element ''h2''
             [Attr ''id'' (js ''launch-modal-title''), Attr ''class'' (js ''headline-medium text-on-surface'')]
             [Text (js ''Be the first to know when BookHood launches'')]],
        closeButton]"

definition modalDescription :: node where
  "modalDescription =
     Element ''p''
       [Attr ''id'' (js ''launch-modal-description''),
        Attr ''class'' (js ''body-medium mt-[var(--spacing-7)] text-on-surface-variant'')]
       [Text (js ''Join our launch list to receive the store links instantly and unlock bonuses crafted for early community members.'')]"

definition benefitItem :: "jsstring \<Rightarrow> node" where
  "benefitItem benefit =
     Element ''li'' [Attr ''class'' (js ''flex items-start gap-[var(--spacing-4)] body-medium'')]
       [Element ''span''
          [Attr ''aria-hidden'' (js ''true''),
           Attr ''class'' (js ''mt-[var(--spacing-1)] inline-flex h-[var(--spacing-4)] w-[var(--spacing-4)] flex-shrink-0 rounded-full bg-primary'')]
          [],
        Text benefit]"

definition benefitsList :: node where
  "benefitsList =
     Element ''ul'' [Attr ''class'' (js ''mt-[var(--spacing-8)] space-y-[var(--spacing-4)] text-on-surface'')]
       (map benefitItem benefits)"

definition emailInput :: "jsstring \<Rightarrow> node" where
  "emailInput e =
     Element ''input''
       [Attr ''id'' (js ''launch-email''),
        Ref InputRef,
        Attr ''type'' (js ''email''),
        Attr ''inputmode'' (js ''email''),
        Attr ''required'' [],
        Attr ''autocomplete'' (js ''email''),
        Attr ''placeholder'' (js ''you@example.com''),
        Attr ''value'' e,
        OnChange,
        Attr ''class'' (js ''w-full rounded-[var(--radius-lg)] border border-outline/60 bg-surface px-[var(--spacing-7)] py-[var(--spacing-6)] body-medium text-on-surface placeholder:text-on-surface-variant focus:border-primary focus:outline-none focus:ring-2 focus:ring-primary/40'')]
       []"

definition emailField :: "jsstring \<Rightarrow> node" where
  "emailField e =
     Element ''div'' [Attr ''class'' (js ''space-y-[var(--spacing-3)]'')]
       [Element ''label''
          [Attr ''class'' (js ''title-medium text-on-surface''), Attr ''for'' (js ''launch-email'')]
          [Text (js ''Email address'')],
        emailInput e,
        Element ''p'' [Attr ''class'' (js ''body-small text-on-surface-variant'')]
          [Text (js ''We send one notification when the app is live. Unsubscribe anytime.'')]]"

definition submitButton :: "jsstring \<Rightarrow> node" where
  "submitButton e =
     PrimaryCtaButton None (Some (js ''submit'')) (Some (isSubmitDisabled e)) []
       [Text (js ''Notify me and add me to the launch list'')]"

definition launchForm :: "jsstring \<Rightarrow> node" where
  "launchForm e =
     Element ''form''
       [Attr ''class'' (js ''mt-[var(--spacing-9)] space-y-[var(--spacing-6)]''), OnSubmit]
       [emailField e, submitButton e]"

definition successRegion :: node where
  "successRegion =
     Element ''div''
       [Attr ''class'' (js ''mt-[var(--spacing-8)] rounded-[var(--radius-lg)] border border-success bg-success-soft p-[var(--spacing-7)]''),
        Attr ''aria-live'' (js ''polite'')]
       [Element ''p'' [Attr ''class'' (js ''title-medium text-success'')]
          [Text (js ''You'' @ [0x27] @ js ''re on the list!'')],
        Element ''p'' [Attr ''class'' (js ''body-medium text-on-surface-variant'')]
          [Text (js ''Expect a confirmation email soon. ''),
           Text (js ''We'' @ [0x27] @ js ''ll share the download links and bonus codes as soon as stores approve us.'')]]"

definition dialogPanel :: "jsstring \<Rightarrow> status \<Rightarrow> node" where
  "dialogPanel e st =
     Element ''div''
       [Ref DialogRef,
        Attr ''class'' (js ''w-full max-w-xl rounded-[var(--radius-xl)] border border-outline/40 bg-surface p-[var(--spacing-11)] text-on-surface elevation-level3''),
        Attr ''role'' (js ''dialog''),
        Attr ''aria-modal'' (js ''true''),
        Attr ''aria-labelledby'' (js ''launch-modal-title''),
        Attr ''aria-describedby'' (js ''launch-modal-description''),
        OnClick StopPropagation]
       ([modalHeader, modalDescription, benefitsList, launchForm e]
        @ (if st = Success then [successRegion] else []))"

text \<open>
  The render function proper, on the \<^verbatim>\<open>open\<close> prop and the two state
  variables: \<^verbatim>\<open>if (!open) return null\<close>, else the overlay around the panel.
\<close>

definition LaunchModal :: "bool \<Rightarrow> jsstring \<Rightarrow> status \<Rightarrow> node option" where
  "LaunchModal opn e st =
     (if \<not> opn then None
      else Some (Element ''div''
             [Attr ''class'' (js ''fixed inset-0 z-50 flex items-center justify-center bg-scrim/80 px-[var(--container-padding-sm)]''),
              Attr ''role'' (js ''presentation''),
              OnClick CallOnClose]
             [dialogPanel e st]))"

section \<open>Launch modal: state, effect and event handlers\<close>

text \<open>
  An element of the page: the body, an element outside the dialog (an
  \<^verbatim>\<open>HTMLElement\<close>, or a foreign one such as an SVG link, which
  \<^verbatim>\<open>instanceof HTMLElement\<close> rejects), or an element of the rendered dialog,
  named by its path.
\<close>

datatype element = Body | Outside nat | OutsideForeign nat | Modal path

fun isHTMLElement :: "element \<Rightarrow> bool" where
  "isHTMLElement (OutsideForeign n) = False"
| "isHTMLElement e = True"

record key_event =
  key :: string
  shiftKey :: bool

text \<open>
  Everything the two components read and write: the state of \<^verbatim>\<open>HomePage\<close>
  (\<open>isModalOpen\<close>), the state and the ref of \<^verbatim>\<open>LaunchModal\<close>, and the
  parts of the document and the window the effect touches. \<open>cleanup\<close> is the cleanup
  function the last run of the effect returned: none after the closed branch
  (\<^verbatim>\<open>return undefined\<close>), else the closure holding that run's timer id.
  Listeners are counted and timers kept by id, so that a listener or a timer left behind
  would show.
\<close>

record world =
  isModalOpen :: bool
  email :: jsstring
  status :: status
  lastFocusedRef :: "element option"
  activeElement :: "element option"
  bodyOverflow :: "string option"
  keydownListeners :: nat
  pendingTimers :: "nat list"
  nextTimer :: nat
  cleanup :: "nat option"

text \<open>The mounted tree is the render of the current props and state.\<close>

definition rendered :: "world \<Rightarrow> node option" where
  "rendered w = LaunchModal (isModalOpen w) (email w) (status w)"

definition attached :: "world \<Rightarrow> element \<Rightarrow> bool" where
  "attached w e =
     (case e of
        Modal p \<Rightarrow> (case rendered w of None \<Rightarrow> False
                    | Some t \<Rightarrow> (case node_at t p of None \<Rightarrow> False | Some n \<Rightarrow> is_element n))
      | _ \<Rightarrow> True)"

text \<open>
  \<^verbatim>\<open>el.focus()\<close> on an element of the document makes it the active element;
  on an element that is no longer in the document it does nothing. \<open>focus_current\<close>
  is \<^verbatim>\<open>ref.current?.focus()\<close>.
\<close>

definition set_focus :: "element \<Rightarrow> world \<Rightarrow> world" where
  "set_focus e w = w\<lparr>activeElement := Some e\<rparr>"

definition focus :: "element \<Rightarrow> world \<Rightarrow> world" where
  "focus e w = (if attached w e then set_focus e w else w)"

definition focus_current :: "element option \<Rightarrow> world \<Rightarrow> world" where
  "focus_current r w = (case r of None \<Rightarrow> w | Some e \<Rightarrow> focus e w)"

text \<open>
  Committing a render: when the focused element leaves the document with the dialog,
  the body becomes the active element.
\<close>

definition commit :: "world \<Rightarrow> world" where
  "commit w =
     (case activeElement w of
        Some (Modal p) \<Rightarrow> if attached w (Modal p) then w else w\<lparr>activeElement := Some Body\<rparr>
      | _ \<Rightarrow> w)"

text \<open>
  The body of the effect (lines 34 to 78), read on the \<^verbatim>\<open>open\<close> prop of the
  committed render, and the cleanup function it returns (lines 79 to 83).
\<close>

definition run_effect :: "world \<Rightarrow> world" where
  "run_effect w =
     (if \<not> isModalOpen w then
        focus_current (lastFocusedRef w)
          (w\<lparr>status := Idle, email := [], bodyOverflow := None, cleanup := None\<rparr>)
      else
        (let timer = nextTimer w in
         w\<lparr>lastFocusedRef :=
             (case activeElement w of None \<Rightarrow> None
              | Some e \<Rightarrow> if isHTMLElement e then Some e else None),
           bodyOverflow := Some ''hidden'',
           pendingTimers := pendingTimers w @ [timer],
           nextTimer := Suc timer,
           keydownListeners := Suc (keydownListeners w),
           cleanup := Some timer\<rparr>))"

definition run_cleanup :: "world \<Rightarrow> world" where
  "run_cleanup w =
     (case cleanup w of
        None \<Rightarrow> w
      | Some timer \<Rightarrow>
          w\<lparr>keydownListeners := keydownListeners w - 1,
            pendingTimers := removeAll timer (pendingTimers w),
            bodyOverflow := None,
            cleanup := None\<rparr>)"

text \<open>
  \<^verbatim>\<open>setIsModalOpen\<close> of \<^verbatim>\<open>HomePage\<close>. Setting the state to the value it
  has renders nothing and runs no effect. A new value renders \<^verbatim>\<open>HomePage\<close>
  again, which hands \<^verbatim>\<open>LaunchModal\<close> a new \<^verbatim>\<open>open\<close> and a new
  \<^verbatim>\<open>onClose\<close> closure: the dependencies \<^verbatim>\<open>[open, onClose]\<close> have changed,
  so after the commit the previous cleanup runs and then the effect. The state changes
  of \<^verbatim>\<open>LaunchModal\<close> itself leave both dependencies as they are.
\<close>

definition setIsModalOpen :: "bool \<Rightarrow> world \<Rightarrow> world" where
  "setIsModalOpen v w =
     (if isModalOpen w = v then w
      else run_effect (run_cleanup (commit (w\<lparr>isModalOpen := v\<rparr>))))"

definition openModal :: "world \<Rightarrow> world" where
  "openModal w = setIsModalOpen True w"

definition closeModal :: "world \<Rightarrow> world" where
  "closeModal w = setIsModalOpen False w"

definition setEmail :: "jsstring \<Rightarrow> world \<Rightarrow> world" where
  "setEmail v w = commit (w\<lparr>email := v\<rparr>)"

definition setStatus :: "status \<Rightarrow> world \<Rightarrow> world" where
  "setStatus v w = commit (w\<lparr>status := v\<rparr>)"

text \<open>
  \<^verbatim>\<open>handleKeyDown\<close> (lines 49 to 75). \<open>d\<close> is \<^verbatim>\<open>dialogRef.current\<close> at
  the time of the event; the result is whether \<^verbatim>\<open>preventDefault\<close> was called,
  and the world after. \<^verbatim>\<open>onClose\<close> is \<^verbatim>\<open>closeModal\<close>, the one value
  \<^verbatim>\<open>HomePage\<close> gives the prop. The elements the query returns are in the
  document, so focusing them takes effect.
\<close>

definition handleKeyDown :: "key_event \<Rightarrow> (path \<times> node) option \<Rightarrow> world \<Rightarrow> bool \<times> world" where
  "handleKeyDown event d w =
     (if key event = ''Escape'' then (True, closeModal w)
      else if key event = ''Tab'' then
        (case d of
           None \<Rightarrow> (False, w)
         | Some panel \<Rightarrow>
             (let focusable = querySelectorAll focusableSelectors panel in
              if length focusable = 0 then (True, w)
              else
                (let first = focusable ! 0;
                     last = focusable ! (length focusable - 1)
                 in if \<not> shiftKey event \<and> activeElement w = Some (Modal last)
                    then (True, set_focus (Modal first) w)
                    else if shiftKey event \<and> activeElement w = Some (Modal first)
                    then (True, set_focus (Modal last) w)
                    else (False, w))))
      else (False, w))"

text \<open>\<^verbatim>\<open>handleSubmit\<close> (lines 92 to 95) and the input's \<^verbatim>\<open>onChange\<close>.\<close>

definition handleSubmit :: "world \<Rightarrow> bool \<times> world" where
  "handleSubmit w = (True, setStatus Success w)"

definition handleChange :: "jsstring \<Rightarrow> world \<Rightarrow> world" where
  "handleChange v w = setEmail v w"

text \<open>The timer callback: \<^verbatim>\<open>inputRef.current?.focus()\<close>, if the timer is still pending.\<close>

definition timer_fires :: "nat \<Rightarrow> world \<Rightarrow> world" where
  "timer_fires t w =
     (if t \<in> set (pendingTimers w) then
        focus_current (map_option (\<lambda>(q, m). Modal q) (ref_current InputRef (rendered w)))
          (w\<lparr>pendingTimers := removeAll t (pendingTimers w)\<rparr>)
      else w)"

subsection \<open>Events\<close>

text \<open>
  A key press on the window runs every attached \<^verbatim>\<open>keydown\<close> listener, each on the
  document as it is then.
\<close>

fun dispatch_keydown :: "nat \<Rightarrow> key_event \<Rightarrow> world \<Rightarrow> bool \<times> world" where
  "dispatch_keydown 0 event w = (False, w)"
| "dispatch_keydown (Suc n) event w =
     (let (p, w') = handleKeyDown event (ref_current DialogRef (rendered w)) w;
          (q, w'') = dispatch_keydown n event w'
      in (p \<or> q, w''))"

definition keydown :: "key_event \<Rightarrow> world \<Rightarrow> bool \<times> world" where
  "keydown event w = dispatch_keydown (keydownListeners w) event w"

text \<open>
  A click bubbles from its target to the root of the tree and runs the
  \<^verbatim>\<open>onClick\<close> of each element on the way, until one stops the propagation.
\<close>

definition click_handlers :: "node \<Rightarrow> path \<Rightarrow> handler list" where
  "click_handlers t p =
     concat (map (\<lambda>k. case node_at t (take k p) of None \<Rightarrow> []
                       | Some n \<Rightarrow> [h. OnClick h \<leftarrow> props n])
                 (rev [0..<Suc (length p)]))"

fun bubble :: "handler list \<Rightarrow> bool" where
  "bubble [] = False"
| "bubble (StopPropagation # hs) = False"
| "bubble (CallOnClose # hs) = True"

definition click :: "path \<Rightarrow> world \<Rightarrow> world" where
  "click p w =
     (case rendered w of None \<Rightarrow> w
      | Some t \<Rightarrow>
          (case node_at t p of None \<Rightarrow> w
           | Some n \<Rightarrow> if is_element n \<and> bubble (click_handlers t p) then closeModal w else w))"

definition mounted :: "jsx_prop \<Rightarrow> world \<Rightarrow> bool" where
  "mounted pr w =
     (case rendered w of None \<Rightarrow> False
      | Some t \<Rightarrow> list_ex (\<lambda>(q, m). pr \<in> set (props m)) (([], t) # descendants [] t))"

text \<open>
  What can happen to the page: a click on either of the two buttons wired to
  \<^verbatim>\<open>openModal\<close>, a click inside the rendered overlay, a key press, an input
  event on the email field, a submit event on the form, a timer coming due, and focus
  moving by the user's or the browser's doing (a click, default Tab navigation).
\<close>

datatype action =
    NotifyClick
  | JoinClick
  | Click path
  | KeyDown key_event
  | Change jsstring
  | Submit
  | TimerFires nat
  | FocusMove element

fun step :: "action \<Rightarrow> world \<Rightarrow> world" where
  "step NotifyClick w = openModal w"
| "step JoinClick w = openModal w"
| "step (Click p) w = click p w"
| "step (KeyDown event) w = snd (keydown event w)"
| "step (Change v) w = (if mounted OnChange w then handleChange v w else w)"
| "step Submit w = (if mounted OnSubmit w then snd (handleSubmit w) else w)"
| "step (TimerFires t) w = timer_fires t w"
| "step (FocusMove e) w = focus e w"

fun run :: "action list \<Rightarrow> world \<Rightarrow> world" where
  "run [] w = w"
| "run (a # as) w = run as (step a w)"

text \<open>
  The first render: \<^verbatim>\<open>useState(false)\<close>, \<^verbatim>\<open>useState("")\<close>,
  \<^verbatim>\<open>useState("idle")\<close>, \<^verbatim>\<open>useRef(null)\<close>, then the effect.
\<close>

definition initial :: world where
  "initial =
     \<lparr> isModalOpen = False, email = [], status = Idle, lastFocusedRef = None,
       activeElement = Some Body, bodyOverflow = None, keydownListeners = 0,
       pendingTimers = [], nextTimer = 0, cleanup = None \<rparr>"

definition mount :: world where
  "mount = run_effect initial"

text \<open>The worlds the page can be in: the mounted page, and what any event makes of one.\<close>

inductive reachable :: "world \<Rightarrow> bool" where
  mounted_page: "reachable mount"
| after_event: "reachable w \<Longrightarrow> reachable (step a w)"

text \<open>
  The agreement the data model asks for: dialog, scroll lock, key listener and timer all
  follow \<open>isModalOpen\<close>, a closed dialog holds no form state, and the active element
  is in the document.
\<close>

definition consistent :: "world \<Rightarrow> bool" where
  "consistent w =
     (keydownListeners w = (if isModalOpen w then 1 else 0)
      \<and> bodyOverflow w = (if isModalOpen w then Some ''hidden'' else None)
      \<and> (case cleanup w of
            None \<Rightarrow> \<not> isModalOpen w \<and> pendingTimers w = []
          | Some t \<Rightarrow> isModalOpen w \<and> set (pendingTimers w) \<subseteq> {t} \<and> t < nextTimer w)
      \<and> (\<not> isModalOpen w \<longrightarrow> email w = [] \<and> status w = Idle)
      \<and> (case activeElement w of None \<Rightarrow> True | Some e \<Rightarrow> attached w e))"

section \<open>Lemmas: marquee rail\<close>

lemma length_map_indexed: "length (map_indexed f xs) = length xs"
  by (simp add: map_indexed_def)

lemma nth_map_indexed: "k < length xs \<Longrightarrow> map_indexed f xs ! k = f (xs ! k) k"
  by (simp add: map_indexed_def)


section \<open>Lemmas: the rendered dialog, and the agreement of dialog, listener and timer\<close>

lemmas tree_defs = LaunchModal_def dialogPanel_def modalHeader_def closeButton_def
  modalDescription_def benefitsList_def benefitItem_def benefits_def launchForm_def
  emailField_def emailInput_def submitButton_def successRegion_def PrimaryCtaButton_def
  bool_attr_def

lemma js_opaque: "js s = js s"
  by (rule refl)

lemma dialogRef_open:
  "ref_current DialogRef (LaunchModal True e st) = Some ([0], dialogPanel e st)"
  by (simp add: ref_current_def LaunchModal_def dialogPanel_def)

lemma inputRef_open:
  "ref_current InputRef (LaunchModal True e st) = Some ([0, 3, 0, 1], emailInput e)"
  by (simp add: ref_current_def tree_defs cong: js_opaque)

lemma focusable_open:
  "querySelectorAll focusableSelectors ([0], dialogPanel e st) =
     [[0, 0, 1], [0, 3, 0, 1]] @ (if isSubmitDisabled e then [] else [[0, 3, 1]])"
  by (simp add: querySelectorAll_def focusableSelectors_def matches_def tree_defs cong: js_opaque)

lemma refs_closed: "ref_current r (LaunchModal False e st) = None"
  by (simp add: ref_current_def LaunchModal_def)

lemma mounted_iff: "pr = OnSubmit \<or> pr = OnChange \<Longrightarrow> mounted pr w = isModalOpen w"
  by (auto simp add: mounted_def rendered_def tree_defs cong: js_opaque)

lemma node_at_close: "node_at (the (LaunchModal True e st)) [0, 0, 1] = Some closeButton"
  by (simp add: LaunchModal_def dialogPanel_def modalHeader_def)

lemma node_at_input: "node_at (the (LaunchModal True e st)) [0, 3, 0, 1] = Some (emailInput e)"
  by (simp add: LaunchModal_def dialogPanel_def launchForm_def emailField_def)

lemma node_at_submit: "node_at (the (LaunchModal True e st)) [0, 3, 1] = Some (submitButton e)"
  by (simp add: LaunchModal_def dialogPanel_def launchForm_def)

lemma click_overlay: "isModalOpen w \<Longrightarrow> click [] w = closeModal w"
  by (simp add: click_def rendered_def LaunchModal_def click_handlers_def)

lemma click_close: "isModalOpen w \<Longrightarrow> click [0, 0, 1] w = closeModal w"
  by (simp add: click_def rendered_def click_handlers_def LaunchModal_def dialogPanel_def modalHeader_def closeButton_def
      cong: js_opaque)

lemma click_panel: "isModalOpen w \<Longrightarrow> click [0] w = w"
  by (simp add: click_def rendered_def click_handlers_def LaunchModal_def dialogPanel_def 
      cong: js_opaque)

lemma click_closed: "\<not> isModalOpen w \<Longrightarrow> click p w = w"
  by (simp add: click_def rendered_def LaunchModal_def)


lemma removeAll_single: "set xs \<subseteq> {t} \<Longrightarrow> removeAll t xs = []"
  by (induction xs) auto

lemma rendered_closed: "\<not> isModalOpen w \<Longrightarrow> rendered w = None"
  by (simp add: rendered_def LaunchModal_def)

lemma rendered_open: "isModalOpen w \<Longrightarrow> rendered w = LaunchModal True (email w) (status w)"
  by (simp add: rendered_def)

lemma attached_closed:
  "\<not> isModalOpen w \<Longrightarrow> attached w e = (case e of Modal p \<Rightarrow> False | _ \<Rightarrow> True)"
  by (simp add: attached_def rendered_closed split: element.splits)

lemma rendered_active: "rendered (w\<lparr>activeElement := a\<rparr>) = rendered w"
  by (simp add: rendered_def)

lemma attached_active: "attached (w\<lparr>activeElement := a\<rparr>) e = attached w e"
  by (cases e) (simp_all add: attached_def rendered_active)

lemma attached_outside: "(\<And>p. e \<noteq> Modal p) \<Longrightarrow> attached w e"
  by (cases e) (auto simp add: attached_def)

lemma attached_focusable:
  assumes "isModalOpen w"
    and "p \<in> set (querySelectorAll focusableSelectors ([0], dialogPanel (email w) (status w)))"
  shows "attached w (Modal p)"
proof -
  have a: "attached w (Modal [0, 0, 1])"
    using assms(1)
    by (simp add: attached_def rendered_def LaunchModal_def dialogPanel_def modalHeader_def
        closeButton_def)
  have b: "attached w (Modal [0, 3, 0, 1])"
    using assms(1)
    by (simp add: attached_def rendered_def LaunchModal_def dialogPanel_def launchForm_def
        emailField_def emailInput_def)
  have c: "attached w (Modal [0, 3, 1])"
    using assms(1)
    by (simp add: attached_def rendered_def LaunchModal_def dialogPanel_def launchForm_def
        submitButton_def PrimaryCtaButton_def Let_def)
  from assms(2) have "p = [0, 0, 1] \<or> p = [0, 3, 0, 1] \<or> p = [0, 3, 1]"
    by (auto simp add: focusable_open split: if_splits)
  with a b c show ?thesis
    by auto
qed

lemma setIsModalOpen_same: "isModalOpen w = v \<Longrightarrow> setIsModalOpen v w = w"
  by (simp add: setIsModalOpen_def)

lemma isModalOpen_focus_current: "isModalOpen (focus_current r w) = isModalOpen w"
  by (simp add: focus_current_def focus_def set_focus_def split: option.splits)

lemma isModalOpen_setIsModalOpen: "isModalOpen (setIsModalOpen v w) = v"
  by (auto simp add: setIsModalOpen_def run_effect_def Let_def isModalOpen_focus_current run_cleanup_def
      commit_def split: option.splits element.splits)

lemma keydown_none: "keydownListeners w = 0 \<Longrightarrow> keydown event w = (False, w)"
  by (simp add: keydown_def)

lemma keydown_one:
  "keydownListeners w = 1 \<Longrightarrow>
   keydown event w = handleKeyDown event (ref_current DialogRef (rendered w)) w"
  by (simp add: keydown_def split: prod.splits)

lemma keydown_open:
  "consistent w \<Longrightarrow> isModalOpen w \<Longrightarrow>
   keydown event w = handleKeyDown event (Some ([0], dialogPanel (email w) (status w))) w"
  by (simp add: keydown_one consistent_def rendered_def dialogRef_open)

lemma handleKeyDown_result:
  "snd (handleKeyDown event (Some panel) w) = closeModal w
   \<or> snd (handleKeyDown event (Some panel) w) = w
   \<or> (\<exists>q \<in> set (querySelectorAll focusableSelectors panel).
         snd (handleKeyDown event (Some panel) w) = set_focus (Modal q) w)"
  by (auto simp add: handleKeyDown_def Let_def)

lemma consistent_set_focus: "consistent w \<Longrightarrow> attached w e \<Longrightarrow> consistent (set_focus e w)"
  by (auto simp add: consistent_def set_focus_def attached_active split: option.splits)

lemma consistent_focus: "consistent w \<Longrightarrow> consistent (focus e w)"
  by (simp add: focus_def consistent_set_focus)

lemma consistent_focus_current: "consistent w \<Longrightarrow> consistent (focus_current r w)"
  by (simp add: focus_current_def consistent_focus split: option.splits)

lemma commit_closed:
  "\<not> isModalOpen w \<Longrightarrow>
   commit w = w\<lparr>activeElement := (case activeElement w of Some (Modal p) \<Rightarrow> Some Body | a \<Rightarrow> a)\<rparr>"
  by (simp add: commit_def attached_closed split: option.splits element.splits)

lemma commit_outside: "(\<And>p. activeElement w \<noteq> Some (Modal p)) \<Longrightarrow> commit w = w"
  by (auto simp add: commit_def split: option.splits element.splits)

lemma consistent_closeModal:
  assumes c: "consistent w" and o: "isModalOpen w"
  shows "consistent (closeModal w)"
proof -
  from c o obtain t where t: "cleanup w = Some t" and p: "set (pendingTimers w) \<subseteq> {t}"
    and k: "keydownListeners w = 1"
    by (auto simp add: consistent_def split: option.splits)
  have "consistent (run_effect (run_cleanup (commit (w\<lparr>isModalOpen := False\<rparr>))))"
    using t k
    apply (simp add: commit_closed run_cleanup_def run_effect_def)
    apply (rule consistent_focus_current)
    apply (simp add: consistent_def attached_closed removeAll_single [OF p]
        split: option.splits element.splits)
    done
  then show ?thesis
    using o by (simp add: closeModal_def setIsModalOpen_def)
qed

lemma consistent_openModal:
  assumes c: "consistent w" and o: "\<not> isModalOpen w"
  shows "consistent (openModal w)"
proof -
  from c o have n: "cleanup w = None" and k: "keydownListeners w = 0" and p: "pendingTimers w = []"
    by (auto simp add: consistent_def split: option.splits)
  from c o have a: "\<And>p. activeElement w \<noteq> Some (Modal p)"
    by (auto simp add: consistent_def attached_closed split: option.splits)
  then have "commit (w\<lparr>isModalOpen := True\<rparr>) = w\<lparr>isModalOpen := True\<rparr>"
    by (simp add: commit_outside)
  then have "openModal w = run_effect (w\<lparr>isModalOpen := True\<rparr>)"
    using o n by (simp add: openModal_def setIsModalOpen_def run_cleanup_def)
  moreover have "consistent (run_effect (w\<lparr>isModalOpen := True\<rparr>))"
    using a k p
    by (auto simp add: consistent_def run_effect_def Let_def attached_outside split: option.splits)
  ultimately show ?thesis
    by simp
qed

lemma consistent_setIsModalOpen: "consistent w \<Longrightarrow> consistent (setIsModalOpen v w)"
  using consistent_closeModal [of w] consistent_openModal [of w]
  by (cases v; cases "isModalOpen w") (simp_all add: closeModal_def openModal_def setIsModalOpen_same)

lemma consistent_keydown: "consistent w \<Longrightarrow> consistent (snd (keydown event w))"
proof (cases "isModalOpen w")
  case False
  assume "consistent w"
  with False show ?thesis
    by (simp add: keydown_none consistent_def split: option.splits)
next
  case True
  assume c: "consistent w"
  let ?panel = "([0], dialogPanel (email w) (status w))"
  from handleKeyDown_result [of event ?panel w] c True show ?thesis
    by (auto simp add: keydown_open closeModal_def consistent_setIsModalOpen
        consistent_set_focus attached_focusable)
qed

lemma consistent_commit:
  assumes "consistent w" and "isModalOpen w"
  shows "consistent (commit (w\<lparr>email := v\<rparr>))" and "consistent (commit (w\<lparr>status := st\<rparr>))"
  using assms
  by (auto simp add: consistent_def commit_def attached_active attached_outside
      split: option.splits element.splits)

lemma consistent_timer_fires: "consistent w \<Longrightarrow> consistent (timer_fires t w)"
proof -
  assume c: "consistent w"
  then have "consistent (w\<lparr>pendingTimers := removeAll t (pendingTimers w)\<rparr>)"
    by (auto simp add: consistent_def attached_def rendered_def split: option.splits element.splits)
  then show ?thesis
    using c by (simp add: timer_fires_def consistent_focus_current)
qed

lemma consistent_click: "consistent w \<Longrightarrow> consistent (click p w)"
  by (simp add: click_def closeModal_def consistent_setIsModalOpen split: option.splits)

lemma consistent_step: "consistent w \<Longrightarrow> consistent (step a w)"
  by (cases a)
    (simp_all add: openModal_def consistent_setIsModalOpen consistent_click consistent_keydown
      mounted_iff handleChange_def setEmail_def handleSubmit_def setStatus_def consistent_commit
      consistent_timer_fires consistent_focus)

lemma consistent_run: "consistent w \<Longrightarrow> consistent (run as w)"
  by (induction as arbitrary: w) (simp_all add: consistent_step)

lemma mount_eq: "mount = initial"
  by (simp add: mount_def run_effect_def initial_def focus_current_def)

lemma consistent_mount: "consistent mount"
  by (simp add: mount_eq initial_def consistent_def attached_def)

lemma reachable_consistent: "reachable w \<Longrightarrow> consistent w"
  by (induction rule: reachable.induct) (simp_all add: consistent_mount consistent_step)

lemma reachable_run: "reachable w \<Longrightarrow> reachable (run as w)"
  by (induction as arbitrary: w) (simp_all add: after_event)

lemma reachable_from_mount: "reachable (run as mount)"
  by (simp add: reachable_run mounted_page)

section \<open>Lemmas: opening, closing and the sample worlds\<close>

lemma openModal_closed:
  assumes c: "consistent w" and o: "\<not> isModalOpen w"
  shows "openModal w = run_effect (w\<lparr>isModalOpen := True\<rparr>)"
proof -
  from c o have n: "cleanup w = None"
    by (auto simp add: consistent_def split: option.splits)
  from c o have "\<And>p. activeElement w \<noteq> Some (Modal p)"
    by (auto simp add: consistent_def attached_closed split: option.splits)
  then have "commit (w\<lparr>isModalOpen := True\<rparr>) = w\<lparr>isModalOpen := True\<rparr>"
    by (simp add: commit_outside)
  then show ?thesis
    using o n by (simp add: openModal_def setIsModalOpen_def run_cleanup_def)
qed

lemma closeModal_fields:
  assumes "consistent w"
  shows "\<not> isModalOpen (closeModal w)" and "email (closeModal w) = []"
    and "status (closeModal w) = Idle" and "keydownListeners (closeModal w) = 0"
    and "pendingTimers (closeModal w) = []" and "cleanup (closeModal w) = None"
    and "bodyOverflow (closeModal w) = None"
proof -
  have "consistent (closeModal w)"
    using assms by (simp add: closeModal_def consistent_setIsModalOpen)
  moreover have "\<not> isModalOpen (closeModal w)"
    by (simp add: closeModal_def isModalOpen_setIsModalOpen)
  ultimately show "\<not> isModalOpen (closeModal w)" and "email (closeModal w) = []"
    and "status (closeModal w) = Idle" and "keydownListeners (closeModal w) = 0"
    and "pendingTimers (closeModal w) = []" and "cleanup (closeModal w) = None"
    and "bodyOverflow (closeModal w) = None"
    by (auto simp add: consistent_def split: option.splits)
qed

lemma openModal_fields:
  assumes "consistent w" and "\<not> isModalOpen w"
  shows "isModalOpen (openModal w)" and "email (openModal w) = email w"
    and "status (openModal w) = status w" and "keydownListeners (openModal w) = 1"
    and "lastFocusedRef (openModal w) =
          (case activeElement w of None \<Rightarrow> None
           | Some e \<Rightarrow> if isHTMLElement e then Some e else None)"
  using assms
  by (auto simp add: openModal_closed run_effect_def Let_def consistent_def)

lemma step_close:
  assumes "consistent w" and "isModalOpen w"
    and "a \<in> {Click [0, 0, 1], Click [], KeyDown \<lparr>key = ''Escape'', shiftKey = shift\<rparr>}"
  shows "step a w = closeModal w"
proof -
  from assms(3) consider "a = Click [0, 0, 1]" | "a = Click []"
    | "a = KeyDown \<lparr>key = ''Escape'', shiftKey = shift\<rparr>"
    by blast
  then show ?thesis
  proof cases
    case 1
    with assms(2) show ?thesis
      by (simp only: step.simps click_close)
  next
    case 2
    with assms(2) show ?thesis
      by (simp only: step.simps click_overlay)
  next
    case 3
    with assms(1,2) show ?thesis
      by (simp add: keydown_open handleKeyDown_def)
  qed
qed

lemma js_Nil: "js s = [] \<longleftrightarrow> s = []"
  by (simp add: js_def)

lemma dropWhile_all: "(\<forall>x \<in> set (dropWhile P xs). P x) \<longleftrightarrow> (\<forall>x \<in> set xs. P x)"
  by (induction xs) auto

lemma trim_Nil: "trim s = [] \<longleftrightarrow> (\<forall>c \<in> set s. isWhiteSpace c)"
proof -
  have "trim s = [] \<longleftrightarrow> (\<forall>c \<in> set (dropWhile isWhiteSpace s). isWhiteSpace c)"
    by (simp add: trim_def dropWhile_eq_Nil_conv)
  then show ?thesis
    by (simp add: dropWhile_all)
qed

lemma submitButton_props:
  "props (submitButton s) =
     [Attr ''type'' (js ''submit'')]
     @ (if trim s = [] then [Attr ''disabled'' [], Attr ''aria-disabled'' (js ''true'')] else [])
     @ [Attr ''class''
          (join (js '' '')
             [baseClassNames, if trim s = [] then disabledClassNames else enabledClassNames])]"
  by (simp add: submitButton_def PrimaryCtaButton_def isSubmitDisabled_def bool_attr_def
      baseClassNames_def enabledClassNames_def disabledClassNames_def js_Nil)

lemma opened:
  "run [NotifyClick] mount =
     \<lparr> isModalOpen = True, email = [], status = Idle, lastFocusedRef = Some Body,
       activeElement = Some Body, bodyOverflow = Some ''hidden'', keydownListeners = 1,
       pendingTimers = [0], nextTimer = 1, cleanup = Some 0 \<rparr>"
  by (simp add: mount_eq initial_def openModal_def setIsModalOpen_def commit_def run_cleanup_def
      run_effect_def)

lemma submitted:
  "run [NotifyClick, Change (js ''x''), Submit] mount =
     \<lparr> isModalOpen = True, email = js ''x'', status = Success, lastFocusedRef = Some Body,
       activeElement = Some Body, bodyOverflow = Some ''hidden'', keydownListeners = 1,
       pendingTimers = [0], nextTimer = 1, cleanup = Some 0 \<rparr>"
proof -
  have "run [NotifyClick, Change (js ''x''), Submit] mount
      = step Submit (step (Change (js ''x'')) (run [NotifyClick] mount))"
    by simp
  then show ?thesis
    unfolding opened
    by (simp add: mounted_iff handleChange_def setEmail_def handleSubmit_def setStatus_def commit_def)
qed

lemma focused_outside:
  "run [FocusMove (Outside 7)] mount = mount\<lparr>activeElement := Some (Outside 7)\<rparr>"
  by (simp add: focus_def attached_def set_focus_def)

lemma trim_x: "trim (js ''x'') = js ''x''"
  by (simp add: trim_def js_def isWhiteSpace_def)






section \<open>Claims\<close>

text \<open>
  C1 (focus-trap wrap-around). Whatever the panel \<^verbatim>\<open>dialogRef.current\<close> is,
  if its list of focusable descendants in document order is not empty, then Tab without
  Shift on the last of them prevents the default and focuses the first, and Shift+Tab on
  the first prevents the default and focuses the last. Nothing is cached: in every
  reachable world with the dialog open, a key press runs the handler on the panel as
  rendered from the state of that moment, whose focusable list is the close button and
  the email field, and the submit button when the trimmed email is not empty.
\<close>

theorem focus_trap_wrap_around:
  assumes "querySelectorAll focusableSelectors panel = focusable" and "focusable \<noteq> []"
    and "reachable v" and "isModalOpen v"
  shows "handleKeyDown \<lparr>key = ''Tab'', shiftKey = False\<rparr> (Some panel)
           (w\<lparr>activeElement := Some (Modal (last focusable))\<rparr>)
         = (True, w\<lparr>activeElement := Some (Modal (hd focusable))\<rparr>)
       \<and> handleKeyDown \<lparr>key = ''Tab'', shiftKey = True\<rparr> (Some panel)
           (w\<lparr>activeElement := Some (Modal (hd focusable))\<rparr>)
         = (True, w\<lparr>activeElement := Some (Modal (last focusable))\<rparr>)
       \<and> keydown event v = handleKeyDown event (Some ([0], dialogPanel (email v) (status v))) v
       \<and> querySelectorAll focusableSelectors ([0], dialogPanel (email v) (status v))
         = [[0, 0, 1], [0, 3, 0, 1]] @ (if trim (email v) = [] then [] else [[0, 3, 1]])"
proof -
  from assms(2) have "hd focusable = focusable ! 0" and "last focusable = focusable ! (length focusable - 1)"
    by (simp_all add: hd_conv_nth last_conv_nth)
  then have "handleKeyDown \<lparr>key = ''Tab'', shiftKey = False\<rparr> (Some panel)
           (w\<lparr>activeElement := Some (Modal (last focusable))\<rparr>)
         = (True, w\<lparr>activeElement := Some (Modal (hd focusable))\<rparr>)"
    and "handleKeyDown \<lparr>key = ''Tab'', shiftKey = True\<rparr> (Some panel)
           (w\<lparr>activeElement := Some (Modal (hd focusable))\<rparr>)
         = (True, w\<lparr>activeElement := Some (Modal (last focusable))\<rparr>)"
    using assms(1,2) by (simp_all add: handleKeyDown_def set_focus_def)
  moreover from assms(3) have "consistent v"
    by (rule reachable_consistent)
  ultimately show ?thesis
    using assms(4) by (simp add: keydown_open focusable_open isSubmitDisabled_def)
qed

text \<open>
  The list \<open>[A, B, C]\<close> of the specification: close button, email field and submit
  button, for the email \<^verbatim>\<open>"x"\<close>. With no email typed the list is shorter.
\<close>

theorem focus_trap_wrap_around_witness:
  "querySelectorAll focusableSelectors ([0], dialogPanel (js ''x'') Idle)
     = [[0, 0, 1], [0, 3, 0, 1], [0, 3, 1]]
   \<and> [[0, 0, 1], [0, 3, 0, 1], [0, 3, 1]] \<noteq> ([] :: path list)
   \<and> reachable (run [NotifyClick] mount) \<and> isModalOpen (run [NotifyClick] mount)
   \<and> handleKeyDown \<lparr>key = ''Tab'', shiftKey = False\<rparr> (Some ([0], dialogPanel (js ''x'') Idle))
        (mount\<lparr>activeElement := Some (Modal [0, 3, 1])\<rparr>)
      = (True, mount\<lparr>activeElement := Some (Modal [0, 0, 1])\<rparr>)
   \<and> handleKeyDown \<lparr>key = ''Tab'', shiftKey = True\<rparr> (Some ([0], dialogPanel (js ''x'') Idle))
        (mount\<lparr>activeElement := Some (Modal [0, 0, 1])\<rparr>)
      = (True, mount\<lparr>activeElement := Some (Modal [0, 3, 1])\<rparr>)
   \<and> querySelectorAll focusableSelectors
        ([0], dialogPanel (email (run [NotifyClick] mount)) (status (run [NotifyClick] mount)))
      = [[0, 0, 1], [0, 3, 0, 1]]"
proof -
  have q: "querySelectorAll focusableSelectors ([0], dialogPanel (js ''x'') Idle)
     = [[0, 0, 1], [0, 3, 0, 1], [0, 3, 1]]"
    by (simp add: focusable_open isSubmitDisabled_def trim_x js_Nil)
  have n: "[[0, 0, 1], [0, 3, 0, 1], [0, 3, 1]] \<noteq> ([] :: path list)"
    by simp
  have o: "isModalOpen (run [NotifyClick] mount)" and e: "email (run [NotifyClick] mount) = []"
    unfolding opened by simp_all
  have t: "trim [] = []"
    by (simp add: trim_def)
  from focus_trap_wrap_around [OF q n reachable_from_mount o, of mount]
    q o e t reachable_from_mount [of "[NotifyClick]"]
  show ?thesis
    by simp
qed




text \<open>
  C3 (reset on close). In every reachable world with the dialog open, whatever was typed
  or submitted before, each way of closing (the close control, a click on the overlay,
  Escape) leaves the dialog closed with an empty email and the idle status, and opening
  it again renders the dialog of the first open: empty email field, no success region.
\<close>

theorem reset_on_close:
  assumes "reachable w" and "isModalOpen w"
    and "a \<in> {Click [0, 0, 1], Click [], KeyDown \<lparr>key = ''Escape'', shiftKey = shift\<rparr>}"
  shows "\<not> isModalOpen (step a w) \<and> email (step a w) = [] \<and> status (step a w) = Idle
       \<and> isModalOpen (step NotifyClick (step a w))
       \<and> email (step NotifyClick (step a w)) = []
       \<and> status (step NotifyClick (step a w)) = Idle
       \<and> rendered (step NotifyClick (step a w)) = LaunchModal True [] Idle"
proof -
  from assms(1) have c: "consistent w"
    by (rule reachable_consistent)
  from c assms(2,3) have s: "step a w = closeModal w"
    by (rule step_close)
  have c': "consistent (closeModal w)"
    using c by (simp add: closeModal_def consistent_setIsModalOpen)
  note f = closeModal_fields [OF c] openModal_fields [OF c' closeModal_fields(1) [OF c]]
  show ?thesis
    unfolding s by (simp add: f rendered_def)
qed

text \<open>
  Type \<^verbatim>\<open>"x"\<close>, submit, press Escape, open again.
\<close>

theorem reset_on_close_witness:
  "reachable (run [NotifyClick, Change (js ''x''), Submit] mount)
   \<and> isModalOpen (run [NotifyClick, Change (js ''x''), Submit] mount)
   \<and> email (run [NotifyClick, Change (js ''x''), Submit] mount) = js ''x''
   \<and> status (run [NotifyClick, Change (js ''x''), Submit] mount) = Success
   \<and> email (step (KeyDown \<lparr>key = ''Escape'', shiftKey = False\<rparr>)
        (run [NotifyClick, Change (js ''x''), Submit] mount)) = []
   \<and> status (step (KeyDown \<lparr>key = ''Escape'', shiftKey = False\<rparr>)
        (run [NotifyClick, Change (js ''x''), Submit] mount)) = Idle
   \<and> rendered (step NotifyClick (step (KeyDown \<lparr>key = ''Escape'', shiftKey = False\<rparr>)
        (run [NotifyClick, Change (js ''x''), Submit] mount))) = LaunchModal True [] Idle"
proof -
  have r: "reachable (run [NotifyClick, Change (js ''x''), Submit] mount)"
    by (rule reachable_from_mount)
  have o: "isModalOpen (run [NotifyClick, Change (js ''x''), Submit] mount)"
    and e: "email (run [NotifyClick, Change (js ''x''), Submit] mount) = js ''x''"
    and s: "status (run [NotifyClick, Change (js ''x''), Submit] mount) = Success"
    unfolding submitted by simp_all
  have a: "KeyDown \<lparr>key = ''Escape'', shiftKey = False\<rparr>
      \<in> {Click [0, 0, 1], Click [], KeyDown \<lparr>key = ''Escape'', shiftKey = False\<rparr>}"
    by simp
  from reset_on_close [OF r o a] r o e s show ?thesis
    by simp
qed

text \<open>
  C4 (submit gating). For every email string the submit control carries the
  \<^verbatim>\<open>disabled\<close> attribute exactly when the trimmed string is empty, that is when
  the string consists of white space only. When disabled it also carries
  \<^verbatim>\<open>aria-disabled="true"\<close> and the disabled class names, and no longer matches the
  focusable selectors; when enabled it carries neither attribute. The control is the
  element at path \<open>[0, 3, 1]\<close> of the rendered dialog.
\<close>

theorem submit_gating:
  "(attr_of ''disabled'' (props (submitButton s)) \<noteq> None \<longleftrightarrow> trim s = [])
   \<and> (trim s = [] \<longleftrightarrow> (\<forall>c \<in> set s. isWhiteSpace c))
   \<and> isSubmitDisabled s = (trim s = [])
   \<and> attr_of ''disabled'' (props (submitButton s)) = (if trim s = [] then Some [] else None)
   \<and> attr_of ''aria-disabled'' (props (submitButton s))
       = (if trim s = [] then Some (js ''true'') else None)
   \<and> attr_of ''class'' (props (submitButton s))
       = Some (join (js '' '')
           [baseClassNames, if trim s = [] then disabledClassNames else enabledClassNames])
   \<and> (matches focusableSelectors (submitButton s) \<longleftrightarrow> trim s \<noteq> [])
   \<and> (\<exists>t. LaunchModal True s st = Some t \<and> node_at t [0, 3, 1] = Some (submitButton s))"
proof -
  have "matches focusableSelectors (submitButton s) \<longleftrightarrow> trim s \<noteq> []"
    by (simp add: matches_def focusableSelectors_def submitButton_def PrimaryCtaButton_def
        isSubmitDisabled_def bool_attr_def Let_def cong: js_opaque)
  moreover have "\<exists>t. LaunchModal True s st = Some t \<and> node_at t [0, 3, 1] = Some (submitButton s)"
    by (simp add: LaunchModal_def dialogPanel_def launchForm_def)
  ultimately show ?thesis
    by (simp add: submitButton_props trim_Nil [symmetric] isSubmitDisabled_def)
qed

text \<open>
  Two spaces disable the control, an address enables it.
\<close>

theorem submit_gating_witness:
  "trim (js ''  '') = []
   \<and> attr_of ''disabled'' (props (submitButton (js ''  ''))) = Some []
   \<and> attr_of ''aria-disabled'' (props (submitButton (js ''  ''))) = Some (js ''true'')
   \<and> trim (js ''reader@example.com'') \<noteq> []
   \<and> attr_of ''disabled'' (props (submitButton (js ''reader@example.com''))) = None
   \<and> attr_of ''aria-disabled'' (props (submitButton (js ''reader@example.com''))) = None"
proof -
  have blank: "\<forall>c \<in> set (js ''  ''). isWhiteSpace c"
    by (simp add: js_def isWhiteSpace_def)
  have typed: "\<not> (\<forall>c \<in> set (js ''reader@example.com''). isWhiteSpace c)"
    by (simp add: js_def isWhiteSpace_def)
  from blank typed submit_gating [of "js ''  ''" Idle] submit_gating [of "js ''reader@example.com''" Idle]
  show ?thesis
    by simp
qed




text \<open>
  C6 (idempotent open). In every reachable world, opening twice is opening once: the
  second \<^verbatim>\<open>setIsModalOpen(true)\<close> changes nothing, so the dialog is open and the
  focus memory is the one recorded by the first open, the element that was active before
  it (if it is an \<^verbatim>\<open>HTMLElement\<close>). Opening an open dialog and closing a closed
  one change nothing.
\<close>

theorem idempotent_open:
  assumes "reachable w"
  shows "openModal (openModal w) = openModal w
       \<and> step NotifyClick w = openModal w \<and> step JoinClick w = openModal w
       \<and> isModalOpen (openModal w)
       \<and> (\<not> isModalOpen w \<longrightarrow>
            lastFocusedRef (openModal (openModal w)) =
              (case activeElement w of None \<Rightarrow> None
               | Some e \<Rightarrow> if isHTMLElement e then Some e else None))
       \<and> (isModalOpen w \<longrightarrow> openModal w = w)
       \<and> (\<not> isModalOpen w \<longrightarrow> closeModal w = w)
       \<and> closeModal (closeModal w) = closeModal w"
proof -
  from assms have c: "consistent w"
    by (rule reachable_consistent)
  have o: "isModalOpen (openModal w)"
    by (simp add: openModal_def isModalOpen_setIsModalOpen)
  then have i: "openModal (openModal w) = openModal w"
    by (simp add: openModal_def setIsModalOpen_same)
  have "\<not> isModalOpen (closeModal w)"
    by (simp add: closeModal_def isModalOpen_setIsModalOpen)
  then have j: "closeModal (closeModal w) = closeModal w"
    by (simp add: closeModal_def setIsModalOpen_same)
  show ?thesis
    using o j openModal_fields(5) [OF c]
    by (simp add: i) (simp add: openModal_def closeModal_def setIsModalOpen_same)
qed

text \<open>
  With focus on an element of the page, and with the dialog already open.
\<close>

theorem idempotent_open_witness:
  "reachable (run [FocusMove (Outside 7)] mount)
   \<and> \<not> isModalOpen (run [FocusMove (Outside 7)] mount)
   \<and> openModal (openModal (run [FocusMove (Outside 7)] mount)) = openModal (run [FocusMove (Outside 7)] mount)
   \<and> lastFocusedRef (openModal (openModal (run [FocusMove (Outside 7)] mount))) = Some (Outside 7)
   \<and> closeModal (run [FocusMove (Outside 7)] mount) = run [FocusMove (Outside 7)] mount
   \<and> reachable (run [NotifyClick] mount) \<and> isModalOpen (run [NotifyClick] mount)
   \<and> openModal (run [NotifyClick] mount) = run [NotifyClick] mount"
proof -
  have c: "\<not> isModalOpen (run [FocusMove (Outside 7)] mount)"
    and a: "activeElement (run [FocusMove (Outside 7)] mount) = Some (Outside 7)"
    unfolding focused_outside by (simp_all add: mount_eq initial_def)
  have o: "isModalOpen (run [NotifyClick] mount)"
    unfolding opened by simp
  from idempotent_open [OF reachable_from_mount, of "[FocusMove (Outside 7)]"]
    idempotent_open [OF reachable_from_mount, of "[NotifyClick]"] c a o
    reachable_from_mount [of "[FocusMove (Outside 7)]"] reachable_from_mount [of "[NotifyClick]"]
  show ?thesis
    by (elim conjE) simp
qed

text \<open>
  C7 (marquee duplication). For every input sequence of \<open>N\<close> items of any type, the
  rail renders exactly \<open>2 * N\<close> children: the sequence followed by itself, each item
  rendered with its index in the doubled sequence, so child \<open>k\<close> and child \<open>N + k\<close>
  both render item \<open>k\<close>. The empty sequence renders a track with no children.
\<close>

theorem marquee_duplication:
  "marqueeItems items = items @ items
   \<and> children (MarqueeRail items duration gapVar renderItem) = map_indexed renderItem (items @ items)
   \<and> length (children (MarqueeRail items duration gapVar renderItem)) = 2 * length items
   \<and> (\<forall>k < length items.
         children (MarqueeRail items duration gapVar renderItem) ! k = renderItem (items ! k) k
         \<and> children (MarqueeRail items duration gapVar renderItem) ! (length items + k)
             = renderItem (items ! k) (length items + k))
   \<and> children (MarqueeRail [] duration gapVar renderItem) = []"
  by (simp add: MarqueeRail_def marqueeItems_def length_map_indexed nth_map_indexed nth_append
      map_indexed_def)

text \<open>
  Three items: six children, the second copy carrying the indices 3 to 5.
\<close>

theorem marquee_duplication_witness:
  "(1::nat) < length [''a'', ''b'', ''c'']
   \<and> children (MarqueeRail [''a'', ''b'', ''c''] ''48s'' ''--spacing-10'' (\<lambda>item index. (item, index)))
       = [(''a'', 0), (''b'', 1), (''c'', 2), (''a'', 3), (''b'', 4), (''c'', 5)]
   \<and> children (MarqueeRail [''a'', ''b'', ''c''] ''48s'' ''--spacing-10'' (\<lambda>item index. (item, index))) ! (3 + 1)
       = (''b'', 4::nat)"
  using marquee_duplication [of "[''a'', ''b'', ''c'']" "''48s''" "''--spacing-10''" "\<lambda>item index. (item, index)"]
  by (simp add: map_indexed_def upt_rec)

text \<open>
  C8 (empty focusable set). Whatever the panel is, if no descendant of it matches the
  focusable selectors, a Tab key press, with or without Shift, prevents the default and
  changes nothing else. While the dialog is open \<^verbatim>\<open>dialogRef.current\<close> is set, so
  the handler always reaches this test.
\<close>

theorem empty_focusable_guard:
  assumes "querySelectorAll focusableSelectors panel = []" and "reachable v" and "isModalOpen v"
  shows "handleKeyDown \<lparr>key = ''Tab'', shiftKey = shift\<rparr> (Some panel) w = (True, w)
       \<and> ref_current DialogRef (rendered v) \<noteq> None
       \<and> keydown event v = handleKeyDown event (ref_current DialogRef (rendered v)) v"
proof -
  from assms(2) have "consistent v"
    by (rule reachable_consistent)
  with assms(3) have "keydownListeners v = 1"
    by (simp add: consistent_def)
  then show ?thesis
    using assms(1,3) by (simp add: handleKeyDown_def keydown_one rendered_def dialogRef_open)
qed

text \<open>
  A panel holding only text.
\<close>

theorem empty_focusable_guard_witness:
  "querySelectorAll focusableSelectors ([0], Element ''div'' [Ref DialogRef] [Text (js ''x'')]) = []
   \<and> reachable (run [NotifyClick] mount) \<and> isModalOpen (run [NotifyClick] mount)
   \<and> handleKeyDown \<lparr>key = ''Tab'', shiftKey = False\<rparr>
        (Some ([0], Element ''div'' [Ref DialogRef] [Text (js ''x'')])) (run [NotifyClick] mount)
      = (True, run [NotifyClick] mount)
   \<and> handleKeyDown \<lparr>key = ''Tab'', shiftKey = True\<rparr>
        (Some ([0], Element ''div'' [Ref DialogRef] [Text (js ''x'')])) (run [NotifyClick] mount)
      = (True, run [NotifyClick] mount)"
proof -
  have q: "querySelectorAll focusableSelectors ([0], Element ''div'' [Ref DialogRef] [Text (js ''x'')]) = []"
    by (simp add: querySelectorAll_def matches_def)
  have o: "isModalOpen (run [NotifyClick] mount)"
    unfolding opened by simp
  from empty_focusable_guard [OF q reachable_from_mount o, of False "run [NotifyClick] mount"]
    empty_focusable_guard [OF q reachable_from_mount o, of True "run [NotifyClick] mount"]
    q o reachable_from_mount [of "[NotifyClick]"]
  show ?thesis
    by simp
qed

text \<open>
  C9 (close-time cleanup). In every reachable world exactly one key listener is attached
  while the dialog is open and none while it is closed. While it is closed no timer is
  pending, a key press runs nothing and a timer coming due does nothing. Each way of
  closing (the close control, a click on the overlay, Escape) detaches the listener and
  cancels the pending timer.
\<close>

theorem close_time_cleanup:
  assumes "reachable w"
  shows "keydownListeners w = (if isModalOpen w then 1 else 0)
       \<and> (\<not> isModalOpen w \<longrightarrow>
             pendingTimers w = [] \<and> keydown event w = (False, w) \<and> timer_fires t w = w)
       \<and> (isModalOpen w \<longrightarrow>
             a \<in> {Click [0, 0, 1], Click [], KeyDown \<lparr>key = ''Escape'', shiftKey = shift\<rparr>} \<longrightarrow>
             \<not> isModalOpen (step a w) \<and> keydownListeners (step a w) = 0
             \<and> pendingTimers (step a w) = [] \<and> cleanup (step a w) = None
             \<and> keydown event (step a w) = (False, step a w)
             \<and> timer_fires t (step a w) = step a w)"
proof -
  from assms have c: "consistent w"
    by (rule reachable_consistent)
  then have k: "keydownListeners w = (if isModalOpen w then 1 else 0)"
    by (simp add: consistent_def)
  from c have closed: "\<not> isModalOpen w \<longrightarrow>
      pendingTimers w = [] \<and> keydown event w = (False, w) \<and> timer_fires t w = w"
    by (auto simp add: consistent_def keydown_none timer_fires_def split: option.splits)
  note f = closeModal_fields [OF c]
  have "step a w = closeModal w"
    if "isModalOpen w" "a \<in> {Click [0, 0, 1], Click [], KeyDown \<lparr>key = ''Escape'', shiftKey = shift\<rparr>}"
    using c that by (rule step_close)
  with k closed show ?thesis
    by (simp add: f keydown_none timer_fires_def)
qed

text \<open>
  The mounted page, and the dialog closed by a click on the overlay before its timer
  came due.
\<close>

theorem close_time_cleanup_witness:
  "reachable mount \<and> \<not> isModalOpen mount \<and> keydownListeners mount = 0
   \<and> keydown \<lparr>key = ''Tab'', shiftKey = False\<rparr> mount = (False, mount)
   \<and> reachable (run [NotifyClick] mount) \<and> isModalOpen (run [NotifyClick] mount)
   \<and> keydownListeners (run [NotifyClick] mount) = 1
   \<and> pendingTimers (run [NotifyClick] mount) = [0]
   \<and> keydownListeners (step (Click []) (run [NotifyClick] mount)) = 0
   \<and> pendingTimers (step (Click []) (run [NotifyClick] mount)) = []
   \<and> timer_fires 0 (step (Click []) (run [NotifyClick] mount)) = step (Click []) (run [NotifyClick] mount)"
proof -
  have c: "\<not> isModalOpen mount"
    by (simp add: mount_eq initial_def)
  have o: "isModalOpen (run [NotifyClick] mount)" and p: "pendingTimers (run [NotifyClick] mount) = [0]"
    unfolding opened by simp_all
  from close_time_cleanup [OF mounted_page, of "\<lparr>key = ''Tab'', shiftKey = False\<rparr>" 0 "Click []" False]
    close_time_cleanup [OF reachable_from_mount, of "[NotifyClick]" "\<lparr>key = ''Tab'', shiftKey = False\<rparr>" 0 "Click []" False]
    c o p mounted_page reachable_from_mount [of "[NotifyClick]"]
  show ?thesis
    by simp
qed

text \<open>
  C10 (closed dialog renders nothing). For every props value with \<^verbatim>\<open>open = false\<close>
  the render function returns \<^verbatim>\<open>null\<close>, whatever the state: no ref is
  filled, and in a world whose dialog is closed no path names an element of the dialog,
  so none can be focused or clicked and no handler prop is mounted.
\<close>

theorem closed_renders_nothing:
  "LaunchModal False e st = None
   \<and> ref_current r (LaunchModal False e st) = None
   \<and> (\<not> isModalOpen w \<longrightarrow>
        rendered w = None \<and> \<not> attached w (Modal p) \<and> click p w = w
        \<and> \<not> mounted pr w \<and> step (Change v) w = w \<and> step Submit w = w)"
  by (simp add: refs_closed rendered_closed attached_closed click_closed mounted_def LaunchModal_def
      ref_current_def)

text \<open>
  The page as first mounted is such a world.
\<close>

theorem closed_renders_nothing_witness:
  "\<not> isModalOpen mount \<and> rendered mount = None \<and> \<not> attached mount (Modal [0])
   \<and> click [0, 0, 1] mount = mount \<and> step (Change (js ''x'')) mount = mount \<and> step Submit mount = mount"
  using closed_renders_nothing [of "[]" Idle DialogRef mount "[0]" OnSubmit "js ''x''"]
    closed_renders_nothing [of "[]" Idle DialogRef mount "[0, 0, 1]" OnSubmit "js ''x''"]
  by (simp add: mount_eq initial_def)

end
